theory Spec2Isabelle
  imports Complex_Main
begin

section \<open>Numeric model\<close>

text \<open>
  Python numbers are modelled by exact arithmetic: a float is a \<^typ>\<open>real\<close>, an int an
  \<^typ>\<open>int\<close>.  Every comparison and every branch of the source is in the model; the
  rounding of IEEE doubles is not, nor is the \<^verbatim>\<open>OverflowError\<close> of \<^verbatim>\<open>**\<close> on a huge
  exponent.  The properties proved below are therefore those that rest on which branch
  is taken and on which operands a value is computed from; properties of the numeric
  value of a payment or of a schedule in doubles are outside this model.  The only
  non-finite value the calculator produces on purpose, \<^verbatim>\<open>float('inf')\<close>, is a
  constructor of its own.  A raised exception is the left summand of a sum type.
\<close>

datatype py_error = ZeroDivisionError

text \<open>\<^verbatim>\<open>a / b\<close> on Python numbers.\<close>

definition py_div :: "real \<Rightarrow> real \<Rightarrow> py_error + real" where
  "py_div a b = (if b = 0 then Inl ZeroDivisionError else Inr (a / b))"

text \<open>\<^verbatim>\<open>x ** n\<close> for a float \<open>x\<close> and an int \<open>n\<close>; a zero base with a negative exponent raises.\<close>

definition py_pow :: "real \<Rightarrow> int \<Rightarrow> py_error + real" where
  "py_pow x n =
     (if 0 \<le> n then Inr (x ^ nat n)
      else if x = 0 then Inl ZeroDivisionError
      else Inr (1 / x ^ nat (- n)))"

text \<open>A float that may be \<^verbatim>\<open>float('inf')\<close>.\<close>

datatype pyfloat = Fini real | PlusInf

fun gt_f :: "pyfloat \<Rightarrow> real \<Rightarrow> bool" where
  "gt_f (Fini x) c = (x > c)"
| "gt_f PlusInf c = True"

fun le_f :: "pyfloat \<Rightarrow> real \<Rightarrow> bool" where
  "le_f (Fini x) c = (x \<le> c)"
| "le_f PlusInf c = False"

section \<open>config.py\<close>

definition MAX_DEBT_RATIO :: real where "MAX_DEBT_RATIO = 35 / 100"
definition MIN_RESTE_A_VIVRE :: int where "MIN_RESTE_A_VIVRE = 700"
definition MIN_RESTE_A_VIVRE_ENFANT :: int where "MIN_RESTE_A_VIVRE_ENFANT = 300"
definition MAX_AGE_FIN_PRET :: int where "MAX_AGE_FIN_PRET = 75"
definition MIN_AGE :: int where "MIN_AGE = 18"
definition TAUX_IMMO :: real where "TAUX_IMMO = 35 / 1000"
definition TAUX_CONSO :: real where "TAUX_CONSO = 65 / 1000"
definition APPORT_MIN_RECOMMANDE :: real where "APPORT_MIN_RECOMMANDE = 10 / 100"
definition SEUIL_IMMO :: real where "SEUIL_IMMO = 75000"

section \<open>calculator.py: CalculateurCredit\<close>

definition mensualite :: "real \<Rightarrow> real \<Rightarrow> int \<Rightarrow> py_error + real" where
  "mensualite capital taux_annuel duree_annees =
     (if taux_annuel = 0 then py_div capital (of_int (duree_annees * 12))
      else
        let taux_mensuel = taux_annuel / 12;
            nb_mois = duree_annees * 12
        in case py_pow (1 + taux_mensuel) nb_mois of
             Inl e \<Rightarrow> Inl e
           | Inr p \<Rightarrow> py_div (capital * (taux_mensuel * p)) (p - 1))"

definition cout_total :: "real \<Rightarrow> real \<Rightarrow> int \<Rightarrow> py_error + (real \<times> real)" where
  "cout_total capital taux_annuel duree_annees =
     (case mensualite capital taux_annuel duree_annees of
        Inl e \<Rightarrow> Inl e
      | Inr mens \<Rightarrow>
          let total = mens * of_int duree_annees * 12
          in Inr (total, total - capital))"

definition taux_endettement :: "real \<Rightarrow> real \<Rightarrow> pyfloat" where
  "taux_endettement mens revenu_mensuel =
     (if revenu_mensuel \<le> 0 then PlusInf else Fini (mens / revenu_mensuel))"

definition capacite_emprunt :: "real \<Rightarrow> real \<Rightarrow> int \<Rightarrow> real \<Rightarrow> py_error + real" where
  "capacite_emprunt revenu_mensuel taux_annuel duree_annees charges =
     (let mensualite_max = revenu_mensuel * MAX_DEBT_RATIO - charges
      in if mensualite_max \<le> 0 then Inr 0
         else
           let taux_mensuel = taux_annuel / 12;
               nb_mois = duree_annees * 12
           in if taux_annuel = 0 then Inr (mensualite_max * of_int nb_mois)
              else case py_pow (1 + taux_mensuel) nb_mois of
                     Inl e \<Rightarrow> Inl e
                   | Inr p \<Rightarrow> py_div (mensualite_max * (p - 1)) (taux_mensuel * p))"

datatype type_credit_t = Immobilier | Consommation

definition type_credit :: "real \<Rightarrow> type_credit_t" where
  "type_credit montant = (if montant \<ge> SEUIL_IMMO then Immobilier else Consommation)"

definition taux_interet :: "real \<Rightarrow> real" where
  "taux_interet montant = (if montant \<ge> SEUIL_IMMO then TAUX_IMMO else TAUX_CONSO)"

section \<open>decision\_engine.py: MoteurDecision\<close>

text \<open>
  The application is a dict read with \<^verbatim>\<open>dossier.get(key, default)\<close>: each key may be
  absent.  \<open>dget\<close> is \<^verbatim>\<open>.get\<close> with its default.
\<close>

record dossier =
  d_revenu_annuel :: "real option"
  d_montant_credit :: "real option"
  d_duree_annees :: "int option"
  d_age :: "int option"
  d_anciennete_emploi :: "real option"
  d_nb_enfants :: "int option"
  d_charges_existantes :: "real option"
  d_apport :: "real option"

definition dget :: "'a option \<Rightarrow> 'a \<Rightarrow> 'a" where
  "dget v dflt = (case v of None \<Rightarrow> dflt | Some x \<Rightarrow> x)"

text \<open>
  The row handed to the classifier: the fifteen columns \<^verbatim>\<open>_score_ml\<close> assigns.  Every
  other column of the feature list stays \<^verbatim>\<open>np.nan\<close>.  \<open>None\<close> in a column is
  \<^verbatim>\<open>np.nan\<close>.
\<close>

record features_row =
  AMT_INCOME_TOTAL :: "real option"
  AMT_CREDIT :: "real option"
  AGE_YEARS :: "int option"
  EMPLOYED_YEARS :: "real option"
  CNT_CHILDREN :: int
  CNT_FAM_MEMBERS :: int
  AMT_ANNUITY :: real
  CREDIT_INCOME_RATIO :: "real option"
  ANNUITY_INCOME_RATIO :: "real option"
  INCOME_MONTHLY :: real
  DEBT_RATIO :: "real option"
  RESTE_A_VIVRE :: real
  DUREE_PRET_YEARS :: int
  AGE_FIN_PRET :: int
  CREDIT_TERM_MONTHS :: int

text \<open>
  The injected model, seen through the one expression that uses it,
  \<^verbatim>\<open>float(self.model.predict_proba(X_pred)[:, 1][0])\<close>: \<open>Some p\<close> when it evaluates to
  \<open>p\<close>, \<open>None\<close> when anything in it raises (a model that is \<^verbatim>\<open>None\<close> included).
\<close>

type_synonym classifier = "features_row \<Rightarrow> real option"

definition ligne_features :: "dossier \<Rightarrow> real \<Rightarrow> int \<Rightarrow> features_row" where
  "ligne_features dossier mens duree =
     (let revenu = dget (d_revenu_annuel dossier) 1;
          montant = dget (d_montant_credit dossier) 0
      in \<lparr>AMT_INCOME_TOTAL = d_revenu_annuel dossier,
          AMT_CREDIT = d_montant_credit dossier,
          AGE_YEARS = d_age dossier,
          EMPLOYED_YEARS = d_anciennete_emploi dossier,
          CNT_CHILDREN = dget (d_nb_enfants dossier) 0,
          CNT_FAM_MEMBERS = dget (d_nb_enfants dossier) 0 + 1,
          AMT_ANNUITY = mens * 12,
          CREDIT_INCOME_RATIO = (if revenu > 0 then Some (montant / revenu) else None),
          ANNUITY_INCOME_RATIO = (if revenu > 0 then Some ((mens * 12) / revenu) else None),
          INCOME_MONTHLY = revenu / 12,
          DEBT_RATIO = (if revenu > 0 then Some (mens / (revenu / 12)) else None),
          RESTE_A_VIVRE = (revenu / 12) - mens,
          DUREE_PRET_YEARS = duree,
          AGE_FIN_PRET = dget (d_age dossier) 30 + duree,
          CREDIT_TERM_MONTHS = duree * 12\<rparr>)"

text \<open>\<^verbatim>\<open>_score_ml\<close>: the \<^verbatim>\<open>try\<close> with its bare \<^verbatim>\<open>except\<close>.\<close>

definition u_score_ml :: "classifier \<Rightarrow> dossier \<Rightarrow> real \<Rightarrow> int \<Rightarrow> real" where
  "u_score_ml model dossier mens duree =
     (case model (ligne_features dossier mens duree) of
        Some proba \<Rightarrow> proba
      | None \<Rightarrow> 0.5)"

text \<open>
  Findings.  An alert is a pair of a level and a message; the f-string of the source is
  kept as its template (the constructor) and the values it formats.
\<close>

datatype niveau = Warning | Danger

datatype message_alerte =
    TauxEndettementCritique pyfloat
  | TauxEndettementEleve pyfloat
  | ResteAVivreInsuffisantMsg real
  | ResteAVivreLimite real int
  | AgeInsuffisant int
  | AgeFinPretEleve int
  | AncienneteFaible real
  | ApportFaible real

datatype point_fort =
    ExcellentTauxEndettement pyfloat
  | BonTauxEndettement pyfloat
  | ExcellentResteAVivre real
  | ExcellenteStabilite real
  | BonneAnciennete real
  | ApportConsequent real

type_synonym etat = "int \<times> (niveau \<times> message_alerte) list \<times> point_fort list"

text \<open>
  The five rule blocks of \<^verbatim>\<open>analyser\<close>, in the order of the source.  Each one updates
  \<open>(score_metier, alertes, points_forts)\<close>.
\<close>

fun regle_endettement :: "pyfloat \<Rightarrow> etat \<Rightarrow> etat" where
  "regle_endettement te (score_metier, alertes, points_forts) =
     (if gt_f te 0.50 then
        (score_metier - 40, alertes @ [(Danger, TauxEndettementCritique te)], points_forts)
      else if gt_f te MAX_DEBT_RATIO then
        (score_metier - 25, alertes @ [(Warning, TauxEndettementEleve te)], points_forts)
      else if le_f te 0.25 then
        (score_metier + 10, alertes, points_forts @ [ExcellentTauxEndettement te])
      else if le_f te 0.33 then
        (score_metier, alertes, points_forts @ [BonTauxEndettement te])
      else (score_metier, alertes, points_forts))"

fun regle_reste_a_vivre :: "real \<Rightarrow> int \<Rightarrow> etat \<Rightarrow> etat" where
  "regle_reste_a_vivre reste_a_vivre nb_enfants (score_metier, alertes, points_forts) =
     (let seuil_rav = MIN_RESTE_A_VIVRE + (nb_enfants * MIN_RESTE_A_VIVRE_ENFANT)
      in if reste_a_vivre < 400 then
           (score_metier - 35, alertes @ [(Danger, ResteAVivreInsuffisantMsg reste_a_vivre)],
            points_forts)
         else if reste_a_vivre < of_int seuil_rav then
           (score_metier - 20, alertes @ [(Warning, ResteAVivreLimite reste_a_vivre seuil_rav)],
            points_forts)
         else if reste_a_vivre > of_int (seuil_rav * 2) then
           (score_metier + 10, alertes, points_forts @ [ExcellentResteAVivre reste_a_vivre])
         else (score_metier, alertes, points_forts))"

fun regle_age :: "int \<Rightarrow> int \<Rightarrow> etat \<Rightarrow> etat" where
  "regle_age age age_fin_pret (score_metier, alertes, points_forts) =
     (let (score1, alertes1) =
            (if age < MIN_AGE then (score_metier - 50, alertes @ [(Danger, AgeInsuffisant age)])
             else (score_metier, alertes));
          (score2, alertes2) =
            (if age_fin_pret > MAX_AGE_FIN_PRET then
               (score1 - 15, alertes1 @ [(Warning, AgeFinPretEleve age_fin_pret)])
             else (score1, alertes1))
      in (score2, alertes2, points_forts))"

fun regle_anciennete :: "real \<Rightarrow> etat \<Rightarrow> etat" where
  "regle_anciennete anciennete (score_metier, alertes, points_forts) =
     (if anciennete < 0.5 then
        (score_metier - 15, alertes @ [(Warning, AncienneteFaible anciennete)], points_forts)
      else if anciennete \<ge> 5 then
        (score_metier + 10, alertes, points_forts @ [ExcellenteStabilite anciennete])
      else if anciennete \<ge> 2 then
        (score_metier, alertes, points_forts @ [BonneAnciennete anciennete])
      else (score_metier, alertes, points_forts))"

fun regle_apport :: "type_credit_t \<Rightarrow> real \<Rightarrow> real \<Rightarrow> etat \<Rightarrow> etat" where
  "regle_apport tc montant apport (score_metier, alertes, points_forts) =
     (if tc = Immobilier then
        let taux_apport = (if (montant + apport) > 0 then apport / (montant + apport) else 0)
        in if taux_apport \<ge> 0.20 then
             (score_metier + 10, alertes, points_forts @ [ApportConsequent taux_apport])
           else if taux_apport < APPORT_MIN_RECOMMANDE then
             (score_metier - 10, alertes @ [(Warning, ApportFaible taux_apport)], points_forts)
           else (score_metier, alertes, points_forts)
      else (score_metier, alertes, points_forts))"

datatype decision_t = ACCEPTE | ACCEPTE_SOUS_CONDITIONS | REFUSE

datatype raison_t = TauxEndettementExcessif | ResteAVivreInsuffisant | AgeMinimumNonAtteint

text \<open>The hard-refusal chain: \<open>(refus_auto, raison_refus)\<close>.\<close>

definition refus :: "pyfloat \<Rightarrow> real \<Rightarrow> int \<Rightarrow> bool \<times> raison_t option" where
  "refus te reste_a_vivre age =
     (if gt_f te 0.50 then (True, Some TauxEndettementExcessif)
      else if reste_a_vivre < 400 then (True, Some ResteAVivreInsuffisant)
      else if age < MIN_AGE then (True, Some AgeMinimumNonAtteint)
      else (False, None))"

definition decider :: "bool \<Rightarrow> real \<Rightarrow> decision_t" where
  "decider refus_auto score_final =
     (if refus_auto then REFUSE
      else if score_final \<ge> 70 then ACCEPTE
      else if score_final \<ge> 50 then ACCEPTE_SOUS_CONDITIONS
      else REFUSE)"

record details_t =
  det_type_credit :: type_credit_t
  det_taux :: real
  det_mensualite :: real
  det_taux_endettement :: pyfloat
  det_reste_a_vivre :: real
  det_cout_total :: real
  det_interets :: real
  det_capacite_max :: real
  det_age_fin_pret :: int

record resultat =
  decision :: decision_t
  score_final :: real
  score_metier :: int
  score_ml :: real
  proba_defaut :: real
  alertes :: "(niveau \<times> message_alerte) list"
  points_forts :: "point_fort list"
  refus_auto :: bool
  raison_refus :: "raison_t option"
  details :: details_t

text \<open>The rule blocks applied in order to the starting state \<open>(100, [], [])\<close>.\<close>

definition score_regles ::
  "pyfloat \<Rightarrow> real \<Rightarrow> int \<Rightarrow> int \<Rightarrow> int \<Rightarrow> real \<Rightarrow> type_credit_t \<Rightarrow> real \<Rightarrow> real \<Rightarrow> etat" where
  "score_regles te reste_a_vivre nb_enfants age age_fin_pret anciennete tc montant apport =
     regle_apport tc montant apport
       (regle_anciennete anciennete
         (regle_age age age_fin_pret
           (regle_reste_a_vivre reste_a_vivre nb_enfants
             (regle_endettement te (100, [], [])))))"

definition analyser :: "classifier \<Rightarrow> dossier \<Rightarrow> py_error + resultat" where
  "analyser model dossier =
     (let revenu_annuel = dget (d_revenu_annuel dossier) 0;
          revenu_mensuel = revenu_annuel / 12;
          montant = dget (d_montant_credit dossier) 0;
          duree = dget (d_duree_annees dossier) 20;
          age = dget (d_age dossier) 30;
          anciennete = dget (d_anciennete_emploi dossier) 0;
          nb_enfants = dget (d_nb_enfants dossier) 0;
          charges = dget (d_charges_existantes dossier) 0;
          apport = dget (d_apport dossier) 0;
          tc = type_credit montant;
          taux = taux_interet montant
      in case mensualite montant taux duree of
           Inl e \<Rightarrow> Inl e
         | Inr mens \<Rightarrow>
      let mensualite_totale = mens + charges;
          te = taux_endettement mensualite_totale revenu_mensuel;
          reste_a_vivre = revenu_mensuel - mensualite_totale
      in case cout_total montant taux duree of
           Inl e \<Rightarrow> Inl e
         | Inr (cout, interets_pret) \<Rightarrow>
      case capacite_emprunt revenu_mensuel taux duree charges of
           Inl e \<Rightarrow> Inl e
         | Inr capacite_max \<Rightarrow>
      let age_fin_pret = age + duree;
          (score_brut, alertes_l, points_forts_l) =
             score_regles te reste_a_vivre nb_enfants age age_fin_pret anciennete tc montant apport;
          proba = u_score_ml model dossier mens duree;
          s_ml = (1 - proba) * 100;
          s_metier = max 0 (min 100 score_brut);
          s_final = 0.6 * of_int s_metier + 0.4 * s_ml;
          (refus_a, raison) = refus te reste_a_vivre age
      in Inr \<lparr>decision = decider refus_a s_final,
              score_final = s_final,
              score_metier = s_metier,
              score_ml = s_ml,
              proba_defaut = proba,
              alertes = alertes_l,
              points_forts = points_forts_l,
              refus_auto = refus_a,
              raison_refus = raison,
              details = \<lparr>det_type_credit = tc,
                         det_taux = taux,
                         det_mensualite = mens,
                         det_taux_endettement = te,
                         det_reste_a_vivre = reste_a_vivre,
                         det_cout_total = cout,
                         det_interets = interets_pret,
                         det_capacite_max = capacite_max,
                         det_age_fin_pret = age_fin_pret\<rparr>\<rparr>)"

section \<open>Readings of an application and sample inputs\<close>

text \<open>The values \<^verbatim>\<open>analyser\<close> reads from the dict, with its defaults.\<close>

abbreviation revenu_mensuel_de :: "dossier \<Rightarrow> real" where
  "revenu_mensuel_de d \<equiv> dget (d_revenu_annuel d) 0 / 12"
abbreviation montant_de :: "dossier \<Rightarrow> real" where
  "montant_de d \<equiv> dget (d_montant_credit d) 0"
abbreviation duree_de :: "dossier \<Rightarrow> int" where
  "duree_de d \<equiv> dget (d_duree_annees d) 20"
abbreviation age_de :: "dossier \<Rightarrow> int" where
  "age_de d \<equiv> dget (d_age d) 30"
abbreviation charges_de :: "dossier \<Rightarrow> real" where
  "charges_de d \<equiv> dget (d_charges_existantes d) 0"

text \<open>
  A model that is not loaded (\<^verbatim>\<open>MoteurDecision(model=None)\<close>): every call on it raises.
  Sample applications: one whose payment exceeds half of the income, one in good
  standing, one of a minor whose loan ends after the age of 75; then one that leaves less
  than 400 a month, one of a minor with a one-year loan, and two with a debt ratio
  between 0.35 and 0.50 that differ in the employment tenure.
\<close>

definition modele_absent :: classifier where
  "modele_absent = (\<lambda>row. None)"

definition dossier_surendette :: dossier where
  "dossier_surendette = \<lparr>d_revenu_annuel = Some 12000, d_montant_credit = Some 300000,
     d_duree_annees = Some 1, d_age = Some 40, d_anciennete_emploi = Some 0,
     d_nb_enfants = Some 0, d_charges_existantes = Some 0, d_apport = Some 0\<rparr>"

definition dossier_sain :: dossier where
  "dossier_sain = \<lparr>d_revenu_annuel = Some 60000, d_montant_credit = Some 10000,
     d_duree_annees = Some 1, d_age = Some 35, d_anciennete_emploi = Some 5,
     d_nb_enfants = Some 0, d_charges_existantes = Some 100, d_apport = Some 0\<rparr>"

definition dossier_mineur :: dossier where
  "dossier_mineur = \<lparr>d_revenu_annuel = Some 60000, d_montant_credit = Some 10000,
     d_duree_annees = Some 60, d_age = Some 17, d_anciennete_emploi = Some 5,
     d_nb_enfants = Some 0, d_charges_existantes = Some 0, d_apport = Some 0\<rparr>"

definition dossier_reste_faible :: dossier where
  "dossier_reste_faible = \<lparr>d_revenu_annuel = Some 6000, d_montant_credit = Some 1200,
     d_duree_annees = Some 1, d_age = Some 40, d_anciennete_emploi = Some 3,
     d_nb_enfants = Some 0, d_charges_existantes = Some 0, d_apport = Some 0\<rparr>"

definition dossier_mineur_court :: dossier where
  "dossier_mineur_court = \<lparr>d_revenu_annuel = Some 60000, d_montant_credit = Some 10000,
     d_duree_annees = Some 1, d_age = Some 17, d_anciennete_emploi = Some 5,
     d_nb_enfants = Some 0, d_charges_existantes = Some 0, d_apport = Some 0\<rparr>"

definition dossier_limite :: dossier where
  "dossier_limite = \<lparr>d_revenu_annuel = Some 12000, d_montant_credit = Some 4640,
     d_duree_annees = Some 1, d_age = Some 40, d_anciennete_emploi = Some 3,
     d_nb_enfants = Some 0, d_charges_existantes = Some 0, d_apport = Some 0\<rparr>"

definition dossier_fragile :: dossier where
  "dossier_fragile = \<lparr>d_revenu_annuel = Some 12000, d_montant_credit = Some 4640,
     d_duree_annees = Some 1, d_age = Some 40, d_anciennete_emploi = Some 0,
     d_nb_enfants = Some 0, d_charges_existantes = Some 0, d_apport = Some 0\<rparr>"

section \<open>Properties of the calculator\<close>


lemma mensualite_zero_rate:
  "years \<noteq> 0 \<Longrightarrow> mensualite P 0 years = Inr (P / (of_int years * 12))"
  by (simp add: mensualite_def py_div_def)

text \<open>
  Claim C7, as stated, at a zero term: with a zero rate and \<open>years = 0\<close> the division
  \<^verbatim>\<open>capital / (duree_annees * 12)\<close> raises \<^verbatim>\<open>ZeroDivisionError\<close>; nothing is returned.
\<close>

theorem mensualite_duree_nulle_leve:
  "mensualite 1000 0 0 = Inl ZeroDivisionError \<and> mensualite 1000 0 0 \<noteq> Inr (1000 / (of_int 0 * 12))"
  by (simp add: mensualite_def py_div_def)

text \<open>
  Claim C7 (amended): the debt ratio is \<^verbatim>\<open>float('inf')\<close> for every monthly income
  \<open>\<le> 0\<close>; with a zero rate and a term \<open>years \<noteq> 0\<close> the monthly payment is
  \<open>principal / (years * 12)\<close>; the borrowing capacity is \<open>0\<close> whenever the affordable
  payment \<open>revenu * MAX_DEBT_RATIO - charges\<close> is \<open>\<le> 0\<close>.  None of the three raises.
\<close>

theorem entrees_degenerees:
  "(revenu_mensuel \<le> 0 \<longrightarrow> taux_endettement mens revenu_mensuel = PlusInf) \<and>
   (years \<noteq> 0 \<longrightarrow> mensualite P 0 years = Inr (P / (of_int years * 12))) \<and>
   (revenu * MAX_DEBT_RATIO - charges \<le> 0 \<longrightarrow> capacite_emprunt revenu taux duree charges = Inr 0)"
  by (simp add: taux_endettement_def mensualite_zero_rate capacite_emprunt_def Let_def)

theorem entrees_degenerees_witness:
  "taux_endettement 500 0 = PlusInf \<and> mensualite 12000 0 10 = Inr 100 \<and> capacite_emprunt 1000 (35/1000) 20 400 = Inr 0"
  using entrees_degenerees [of 0 500 10 12000 1000 400 "35/1000" 20]
  by (simp add: MAX_DEBT_RATIO_def)

section \<open>Properties of the decision engine\<close>

lemmas config_defs = MAX_DEBT_RATIO_def MIN_RESTE_A_VIVRE_def MIN_RESTE_A_VIVRE_ENFANT_def
  MAX_AGE_FIN_PRET_def MIN_AGE_def TAUX_IMMO_def TAUX_CONSO_def APPORT_MIN_RECOMMANDE_def SEUIL_IMMO_def

lemma taux_interet_pos: "0 < taux_interet montant"
  by (simp add: taux_interet_def TAUX_IMMO_def TAUX_CONSO_def)

lemma py_pow_base_gt_one:
  assumes "1 < q" "n \<noteq> 0"
  shows "\<exists>p. py_pow q n = Inr p \<and> 0 < p \<and> p \<noteq> 1"
proof (cases "0 \<le> n")
  case True
  then have "0 < nat n" using assms by simp
  then have "1 < q ^ nat n" using assms by (intro one_less_power) auto
  then show ?thesis using True by (simp add: py_pow_def)
next
  case False
  then have "0 < nat (- n)" by simp
  then have "1 < q ^ nat (- n)" using assms by (intro one_less_power) auto
  then have "q ^ nat (- n) \<noteq> 1" "0 < q ^ nat (- n)" by simp_all
  then show ?thesis using False assms by (simp add: py_pow_def)
qed

lemma py_pow_base_pos:
  assumes "0 < q"
  shows "\<exists>p. py_pow q n = Inr p \<and> 0 < p"
  using assms by (simp add: py_pow_def)

lemma mensualite_taux_pos_definie:
  assumes "0 < r" "n \<noteq> 0"
  shows "\<exists>m. mensualite P r n = Inr m"
proof -
  have "1 < 1 + r / 12" "n * 12 \<noteq> 0" using assms by simp_all
  from py_pow_base_gt_one [OF this]
  obtain p where "py_pow (1 + r / 12) (n * 12) = Inr p" "p \<noteq> 1" by blast
  then show ?thesis using assms by (simp add: mensualite_def Let_def py_div_def)
qed

lemma capacite_taux_pos_definie:
  assumes "0 < r"
  shows "\<exists>c. capacite_emprunt revenu r n ch = Inr c"
proof -
  have "0 < 1 + r / 12" using assms by simp
  from py_pow_base_pos [OF this]
  obtain p where "py_pow (1 + r / 12) (n * 12) = Inr p" "0 < p" by blast
  then show ?thesis using assms by (simp add: capacite_emprunt_def Let_def py_div_def)
qed

lemma analyser_retourne:
  assumes "duree_de d \<noteq> 0"
  shows "\<exists>res. analyser model d = Inr res"
proof -
  obtain m where m: "mensualite (montant_de d) (taux_interet (montant_de d)) (duree_de d) = Inr m"
    using mensualite_taux_pos_definie [OF taux_interet_pos assms] by blast
  obtain c where c: "capacite_emprunt (revenu_mensuel_de d) (taux_interet (montant_de d))
      (duree_de d) (charges_de d) = Inr c"
    using capacite_taux_pos_definie [OF taux_interet_pos] by blast
  show ?thesis
    by (simp add: analyser_def Let_def m c cout_total_def split: prod.splits)
qed

lemma analyser_Inr:
  assumes "analyser model d = Inr res"
  shows "\<exists>mens. mensualite (montant_de d) (taux_interet (montant_de d)) (duree_de d) = Inr mens \<and>
     det_mensualite (details res) = mens \<and>
     det_type_credit (details res) = type_credit (montant_de d) \<and>
     det_age_fin_pret (details res) = age_de d + duree_de d \<and>
     det_taux_endettement (details res) = taux_endettement (mens + charges_de d) (revenu_mensuel_de d) \<and>
     det_reste_a_vivre (details res) = revenu_mensuel_de d - (mens + charges_de d) \<and>
     (refus_auto res, raison_refus res) =
        refus (det_taux_endettement (details res)) (det_reste_a_vivre (details res)) (age_de d) \<and>
     decision res = decider (refus_auto res) (score_final res) \<and>
     score_final res = 0.6 * of_int (score_metier res) + 0.4 * score_ml res \<and>
     score_ml res = (1 - proba_defaut res) * 100 \<and>
     proba_defaut res = u_score_ml model d mens (duree_de d) \<and>
     (score_metier res, alertes res, points_forts res) =
        (case score_regles (det_taux_endettement (details res)) (det_reste_a_vivre (details res))
                (dget (d_nb_enfants d) 0) (age_de d) (det_age_fin_pret (details res))
                (dget (d_anciennete_emploi d) 0) (det_type_credit (details res)) (montant_de d)
                (dget (d_apport d) 0)
         of (s, al, pf) \<Rightarrow> (max 0 (min 100 s), al, pf))"
  using assms unfolding analyser_def Let_def
  by (auto split: sum.splits prod.splits)


lemma analyser_duree_nulle:
  assumes "duree_de d = 0"
  shows "analyser model d = Inl ZeroDivisionError"
proof -
  have "taux_interet (montant_de d) \<noteq> 0" using taux_interet_pos [of "montant_de d"] by simp
  then have "mensualite (montant_de d) (taux_interet (montant_de d)) 0 = Inl ZeroDivisionError"
    by (simp add: mensualite_def py_pow_def py_div_def Let_def)
  then show ?thesis using assms by (simp add: analyser_def Let_def)
qed

lemma analyser_retourne_iff:
  "(\<exists>res. analyser model d = Inr res) \<longleftrightarrow> duree_de d \<noteq> 0"
  using analyser_retourne [of d model] analyser_duree_nulle [of d model] by auto

lemma analyser_echec_neutre:
  assumes "\<And>mens. mensualite (montant_de d) (taux_interet (montant_de d)) (duree_de d) = Inr mens
      \<Longrightarrow> model (ligne_features d mens (duree_de d)) = None"
  shows "analyser model d = analyser (\<lambda>row. Some 0.5) d"
proof (cases "mensualite (montant_de d) (taux_interet (montant_de d)) (duree_de d)")
  case (Inl e)
  then show ?thesis by (simp add: analyser_def Let_def)
next
  case (Inr mens)
  from assms [OF Inr] have 1: "u_score_ml model d mens (duree_de d) = 0.5"
    by (simp add: u_score_ml_def)
  have 2: "u_score_ml (\<lambda>row. Some 0.5) d mens (duree_de d) = 0.5"
    by (simp add: u_score_ml_def)
  show ?thesis unfolding analyser_def Let_def Inr by (simp only: 1 2 sum.case)
qed

lemmas eval_defs = analyser_def dget_def type_credit_def taux_interet_def
      mensualite_def cout_total_def capacite_emprunt_def taux_endettement_def py_pow_def py_div_def
      score_regles_def u_score_ml_def refus_def decider_def config_defs Let_def power_divide
      modele_absent_def

text \<open>
  Claim C1: \<^verbatim>\<open>analyser\<close> returns for every application with a nonzero term, and on every
  application it returns for, the reported debt ratio is
  \<open>taux_endettement (mensualite + charges) revenu_mensuel\<close> and the reported disposable
  income \<open>revenu_mensuel - (mensualite + charges)\<close>; if that ratio is \<open>> 0.50\<close>, or else
  the disposable income is \<open>< 400\<close>, or else the age is \<open>< 18\<close>, the decision is
  \<open>REFUSE\<close> whatever the classifier and the scores are, \<open>refus_auto\<close> is set and the one
  reason reported is that of the first condition that holds, in this order; the reason
  is present exactly when \<open>refus_auto\<close> is set.
\<close>

theorem refus_automatique:
  "(duree_de d \<noteq> 0 \<longrightarrow> (\<exists>res. analyser model d = Inr res)) \<and>
   (\<forall>res. analyser model d = Inr res \<longrightarrow>
      (\<exists>mens. mensualite (montant_de d) (taux_interet (montant_de d)) (duree_de d) = Inr mens \<and>
         det_taux_endettement (details res)
           = taux_endettement (mens + charges_de d) (revenu_mensuel_de d) \<and>
         det_reste_a_vivre (details res) = revenu_mensuel_de d - (mens + charges_de d)) \<and>
      (gt_f (det_taux_endettement (details res)) 0.50 \<longrightarrow>
         decision res = REFUSE \<and> refus_auto res \<and>
         raison_refus res = Some TauxEndettementExcessif) \<and>
      (\<not> gt_f (det_taux_endettement (details res)) 0.50 \<and> det_reste_a_vivre (details res) < 400 \<longrightarrow>
         decision res = REFUSE \<and> refus_auto res \<and>
         raison_refus res = Some ResteAVivreInsuffisant) \<and>
      (\<not> gt_f (det_taux_endettement (details res)) 0.50 \<and> \<not> det_reste_a_vivre (details res) < 400 \<and>
         age_de d < 18 \<longrightarrow>
         decision res = REFUSE \<and> refus_auto res \<and>
         raison_refus res = Some AgeMinimumNonAtteint) \<and>
      (raison_refus res \<noteq> None \<longleftrightarrow> refus_auto res))"
proof (intro conjI allI impI)
  assume "duree_de d \<noteq> 0"
  then show "\<exists>res. analyser model d = Inr res" by (rule analyser_retourne)
next
  fix res assume a: "analyser model d = Inr res"
  from analyser_Inr [OF a] obtain mens where
    m: "mensualite (montant_de d) (taux_interet (montant_de d)) (duree_de d) = Inr mens"
    and te: "det_taux_endettement (details res)
           = taux_endettement (mens + charges_de d) (revenu_mensuel_de d)"
    and rav: "det_reste_a_vivre (details res) = revenu_mensuel_de d - (mens + charges_de d)"
    and r: "(refus_auto res, raison_refus res) =
        refus (det_taux_endettement (details res)) (det_reste_a_vivre (details res)) (age_de d)"
    and dec: "decision res = decider (refus_auto res) (score_final res)"
    by blast
  show "\<exists>mens. mensualite (montant_de d) (taux_interet (montant_de d)) (duree_de d) = Inr mens \<and>
         det_taux_endettement (details res)
           = taux_endettement (mens + charges_de d) (revenu_mensuel_de d) \<and>
         det_reste_a_vivre (details res) = revenu_mensuel_de d - (mens + charges_de d)"
    using m te rav by blast
  show "raison_refus res \<noteq> None \<longleftrightarrow> refus_auto res"
    using r by (auto simp: refus_def split: if_splits)
  {
    assume "gt_f (det_taux_endettement (details res)) 0.50"
    with r have "refus_auto res" "raison_refus res = Some TauxEndettementExcessif"
      by (simp_all add: refus_def)
    with dec show "decision res = REFUSE" "refus_auto res"
      "raison_refus res = Some TauxEndettementExcessif"
      by (simp_all add: decider_def)
  }
  {
    assume "\<not> gt_f (det_taux_endettement (details res)) 0.50 \<and> det_reste_a_vivre (details res) < 400"
    with r have "refus_auto res" "raison_refus res = Some ResteAVivreInsuffisant"
      by (simp_all add: refus_def)
    with dec show "decision res = REFUSE" "refus_auto res"
      "raison_refus res = Some ResteAVivreInsuffisant"
      by (simp_all add: decider_def)
  }
  {
    assume "\<not> gt_f (det_taux_endettement (details res)) 0.50 \<and> \<not> det_reste_a_vivre (details res) < 400 \<and>
         age_de d < 18"
    with r have "refus_auto res" "raison_refus res = Some AgeMinimumNonAtteint"
      by (simp_all add: refus_def MIN_AGE_def)
    with dec show "decision res = REFUSE" "refus_auto res"
      "raison_refus res = Some AgeMinimumNonAtteint"
      by (simp_all add: decider_def)
  }
qed

theorem refus_automatique_witness:
  "(\<exists>res. analyser modele_absent dossier_surendette = Inr res \<and>
     gt_f (det_taux_endettement (details res)) 0.50 \<and>
     decision res = REFUSE \<and> refus_auto res \<and>
     raison_refus res = Some TauxEndettementExcessif) \<and>
   (\<exists>res. analyser modele_absent dossier_reste_faible = Inr res \<and>
     \<not> gt_f (det_taux_endettement (details res)) 0.50 \<and> det_reste_a_vivre (details res) < 400 \<and>
     decision res = REFUSE \<and> refus_auto res \<and>
     raison_refus res = Some ResteAVivreInsuffisant) \<and>
   (\<exists>res. analyser modele_absent dossier_mineur_court = Inr res \<and>
     \<not> gt_f (det_taux_endettement (details res)) 0.50 \<and> \<not> det_reste_a_vivre (details res) < 400 \<and>
     age_de dossier_mineur_court < 18 \<and>
     decision res = REFUSE \<and> refus_auto res \<and>
     raison_refus res = Some AgeMinimumNonAtteint)"
proof (intro conjI)
  have "\<exists>res. analyser modele_absent dossier_surendette = Inr res \<and>
     gt_f (det_taux_endettement (details res)) 0.50"
    by (simp add: eval_defs dossier_surendette_def)
  then obtain res where "analyser modele_absent dossier_surendette = Inr res"
    "gt_f (det_taux_endettement (details res)) 0.50" by blast
  with refus_automatique [of dossier_surendette modele_absent]
  show "\<exists>res. analyser modele_absent dossier_surendette = Inr res \<and>
     gt_f (det_taux_endettement (details res)) 0.50 \<and>
     decision res = REFUSE \<and> refus_auto res \<and>
     raison_refus res = Some TauxEndettementExcessif" by blast
next
  have "\<exists>res. analyser modele_absent dossier_reste_faible = Inr res \<and>
     \<not> gt_f (det_taux_endettement (details res)) 0.50 \<and> det_reste_a_vivre (details res) < 400"
    by (simp add: eval_defs dossier_reste_faible_def)
  then obtain res where "analyser modele_absent dossier_reste_faible = Inr res"
    "\<not> gt_f (det_taux_endettement (details res)) 0.50" "det_reste_a_vivre (details res) < 400"
    by blast
  with refus_automatique [of dossier_reste_faible modele_absent]
  show "\<exists>res. analyser modele_absent dossier_reste_faible = Inr res \<and>
     \<not> gt_f (det_taux_endettement (details res)) 0.50 \<and> det_reste_a_vivre (details res) < 400 \<and>
     decision res = REFUSE \<and> refus_auto res \<and>
     raison_refus res = Some ResteAVivreInsuffisant" by blast
next
  have "\<exists>res. analyser modele_absent dossier_mineur_court = Inr res \<and>
     \<not> gt_f (det_taux_endettement (details res)) 0.50 \<and> \<not> det_reste_a_vivre (details res) < 400
     \<and> age_de dossier_mineur_court < 18"
    by (simp add: eval_defs dossier_mineur_court_def)
  then obtain res where "analyser modele_absent dossier_mineur_court = Inr res"
    "\<not> gt_f (det_taux_endettement (details res)) 0.50" "\<not> det_reste_a_vivre (details res) < 400"
    "age_de dossier_mineur_court < 18"
    by blast
  with refus_automatique [of dossier_mineur_court modele_absent]
  show "\<exists>res. analyser modele_absent dossier_mineur_court = Inr res \<and>
     \<not> gt_f (det_taux_endettement (details res)) 0.50 \<and> \<not> det_reste_a_vivre (details res) < 400 \<and>
     age_de dossier_mineur_court < 18 \<and>
     decision res = REFUSE \<and> refus_auto res \<and>
     raison_refus res = Some AgeMinimumNonAtteint" by blast
qed

text \<open>
  Claim C2: on every application \<^verbatim>\<open>analyser\<close> returns for and on which none of the three
  hard-refusal conditions holds, \<open>score_final = 0.6 * score_metier + 0.4 * score_ml\<close>,
  \<open>refus_auto\<close> is not set, and the decision is \<open>ACCEPTE\<close> when \<open>score_final \<ge> 70\<close>,
  \<open>ACCEPTE_SOUS_CONDITIONS\<close> when \<open>50 \<le> score_final < 70\<close> and \<open>REFUSE\<close> when
  \<open>score_final < 50\<close>.
\<close>

theorem decision_par_score:
  "(duree_de d \<noteq> 0 \<longrightarrow> (\<exists>res. analyser model d = Inr res)) \<and>
   (\<forall>res. analyser model d = Inr res \<and>
        \<not> gt_f (det_taux_endettement (details res)) 0.50 \<and>
        \<not> det_reste_a_vivre (details res) < 400 \<and> \<not> age_de d < 18 \<longrightarrow>
      score_final res = 0.6 * of_int (score_metier res) + 0.4 * score_ml res \<and>
      \<not> refus_auto res \<and>
      (score_final res \<ge> 70 \<longrightarrow> decision res = ACCEPTE) \<and>
      (50 \<le> score_final res \<and> score_final res < 70 \<longrightarrow> decision res = ACCEPTE_SOUS_CONDITIONS) \<and>
      (score_final res < 50 \<longrightarrow> decision res = REFUSE))"
proof (intro conjI allI impI)
  assume "duree_de d \<noteq> 0"
  then show "\<exists>res. analyser model d = Inr res" by (rule analyser_retourne)
next
  fix res
  assume h: "analyser model d = Inr res \<and>
        \<not> gt_f (det_taux_endettement (details res)) 0.50 \<and>
        \<not> det_reste_a_vivre (details res) < 400 \<and> \<not> age_de d < 18"
  then have a: "analyser model d = Inr res" by simp
  from analyser_Inr [OF a] have
    r: "(refus_auto res, raison_refus res) =
        refus (det_taux_endettement (details res)) (det_reste_a_vivre (details res)) (age_de d)"
    and dec: "decision res = decider (refus_auto res) (score_final res)"
    and sf: "score_final res = 0.6 * of_int (score_metier res) + 0.4 * score_ml res"
    by blast+
  show "score_final res = 0.6 * of_int (score_metier res) + 0.4 * score_ml res" by (rule sf)
  from r h show nr: "\<not> refus_auto res" by (simp add: refus_def MIN_AGE_def)
  {
    assume "score_final res \<ge> 70"
    with dec nr show "decision res = ACCEPTE" by (simp add: decider_def)
  }
  {
    assume "50 \<le> score_final res \<and> score_final res < 70"
    with dec nr show "decision res = ACCEPTE_SOUS_CONDITIONS" by (simp add: decider_def)
  }
  {
    assume "score_final res < 50"
    with dec nr show "decision res = REFUSE" by (simp add: decider_def)
  }
qed

theorem decision_par_score_witness:
  "(\<exists>res. analyser modele_absent dossier_sain = Inr res \<and>
     score_final res = 80 \<and> decision res = ACCEPTE) \<and>
   (\<exists>res. analyser modele_absent dossier_limite = Inr res \<and>
     score_final res = 53 \<and> decision res = ACCEPTE_SOUS_CONDITIONS) \<and>
   (\<exists>res. analyser modele_absent dossier_fragile = Inr res \<and>
     score_final res = 44 \<and> \<not> refus_auto res \<and> decision res = REFUSE)"
proof (intro conjI)
  have "\<exists>res. analyser modele_absent dossier_sain = Inr res \<and>
     \<not> gt_f (det_taux_endettement (details res)) 0.50 \<and>
     \<not> det_reste_a_vivre (details res) < 400 \<and> \<not> age_de dossier_sain < 18 \<and>
     score_final res = 80"
    by (simp add: eval_defs dossier_sain_def)
  then obtain res where r: "analyser modele_absent dossier_sain = Inr res"
     "\<not> gt_f (det_taux_endettement (details res)) 0.50"
     "\<not> det_reste_a_vivre (details res) < 400" "\<not> age_de dossier_sain < 18"
     "score_final res = 80" by blast
  with decision_par_score [of dossier_sain modele_absent] have "decision res = ACCEPTE"
    by simp
  with r show "\<exists>res. analyser modele_absent dossier_sain = Inr res \<and>
     score_final res = 80 \<and> decision res = ACCEPTE" by blast
next
  have "\<exists>res. analyser modele_absent dossier_limite = Inr res \<and>
     \<not> gt_f (det_taux_endettement (details res)) 0.50 \<and>
     \<not> det_reste_a_vivre (details res) < 400 \<and> \<not> age_de dossier_limite < 18 \<and>
     score_final res = 53"
    by (simp add: eval_defs dossier_limite_def)
  then obtain res where r: "analyser modele_absent dossier_limite = Inr res"
     "\<not> gt_f (det_taux_endettement (details res)) 0.50"
     "\<not> det_reste_a_vivre (details res) < 400" "\<not> age_de dossier_limite < 18"
     "score_final res = 53" by blast
  with decision_par_score [of dossier_limite modele_absent]
  have "decision res = ACCEPTE_SOUS_CONDITIONS" by simp
  with r show "\<exists>res. analyser modele_absent dossier_limite = Inr res \<and>
     score_final res = 53 \<and> decision res = ACCEPTE_SOUS_CONDITIONS" by blast
next
  have "\<exists>res. analyser modele_absent dossier_fragile = Inr res \<and>
     \<not> gt_f (det_taux_endettement (details res)) 0.50 \<and>
     \<not> det_reste_a_vivre (details res) < 400 \<and> \<not> age_de dossier_fragile < 18 \<and>
     score_final res = 44"
    by (simp add: eval_defs dossier_fragile_def)
  then obtain res where r: "analyser modele_absent dossier_fragile = Inr res"
     "\<not> gt_f (det_taux_endettement (details res)) 0.50"
     "\<not> det_reste_a_vivre (details res) < 400" "\<not> age_de dossier_fragile < 18"
     "score_final res = 44" by blast
  with decision_par_score [of dossier_fragile modele_absent]
  have "decision res = REFUSE" "\<not> refus_auto res" by simp_all
  with r show "\<exists>res. analyser modele_absent dossier_fragile = Inr res \<and>
     score_final res = 44 \<and> \<not> refus_auto res \<and> decision res = REFUSE" by blast
qed


text \<open>
  Claim C3: whenever the classifier's call fails on the row built for an application,
  \<^verbatim>\<open>_score_ml\<close> returns \<open>0.5\<close>; for every application with a nonzero term on which
  that call fails, \<^verbatim>\<open>analyser\<close> raises nothing and returns a result with
  \<open>proba_defaut = 0.5\<close>, \<open>score_ml = 50\<close> and a decision; and on every application
  whatsoever, \<^verbatim>\<open>analyser\<close> with a classifier that fails behaves as with one that answers
  \<open>0.5\<close>, so the failure itself never makes it raise.
\<close>

theorem classifieur_en_echec:
  "(\<forall>mens duree. model (ligne_features d mens duree) = None \<longrightarrow>
       u_score_ml model d mens duree = 0.5) \<and>
   (duree_de d \<noteq> 0 \<and>
    (\<forall>mens. mensualite (montant_de d) (taux_interet (montant_de d)) (duree_de d) = Inr mens \<longrightarrow>
        model (ligne_features d mens (duree_de d)) = None) \<longrightarrow>
    (\<exists>res. analyser model d = Inr res \<and> proba_defaut res = 0.5 \<and> score_ml res = 50 \<and>
        score_final res = 0.6 * of_int (score_metier res) + 0.4 * 50 \<and>
        decision res = decider (refus_auto res) (score_final res))) \<and>
   ((\<forall>mens. mensualite (montant_de d) (taux_interet (montant_de d)) (duree_de d) = Inr mens \<longrightarrow>
        model (ligne_features d mens (duree_de d)) = None) \<longrightarrow>
    analyser model d = analyser (\<lambda>row. Some 0.5) d)"
proof (intro conjI allI impI)
  assume "\<forall>mens. mensualite (montant_de d) (taux_interet (montant_de d)) (duree_de d) = Inr mens \<longrightarrow>
        model (ligne_features d mens (duree_de d)) = None"
  then show "analyser model d = analyser (\<lambda>row. Some 0.5) d"
    by (intro analyser_echec_neutre) blast
next
  fix mens duree
  assume "model (ligne_features d mens duree) = None"
  then show "u_score_ml model d mens duree = 0.5" by (simp add: u_score_ml_def)
next
  assume h: "duree_de d \<noteq> 0 \<and>
    (\<forall>mens. mensualite (montant_de d) (taux_interet (montant_de d)) (duree_de d) = Inr mens \<longrightarrow>
        model (ligne_features d mens (duree_de d)) = None)"
  then obtain res where a: "analyser model d = Inr res"
    using analyser_retourne by blast
  from analyser_Inr [OF a] obtain mens where
    m: "mensualite (montant_de d) (taux_interet (montant_de d)) (duree_de d) = Inr mens"
    and dec: "decision res = decider (refus_auto res) (score_final res)"
    and sf: "score_final res = 0.6 * of_int (score_metier res) + 0.4 * score_ml res"
    and sm: "score_ml res = (1 - proba_defaut res) * 100"
    and p: "proba_defaut res = u_score_ml model d mens (duree_de d)"
    by blast
  from h m have "model (ligne_features d mens (duree_de d)) = None" by blast
  with p have p5: "proba_defaut res = 0.5" by (simp add: u_score_ml_def)
  with sm have s50: "score_ml res = 50" by simp
  show "\<exists>res. analyser model d = Inr res \<and> proba_defaut res = 0.5 \<and> score_ml res = 50 \<and>
        score_final res = 0.6 * of_int (score_metier res) + 0.4 * 50 \<and>
        decision res = decider (refus_auto res) (score_final res)"
    using a p5 s50 sf dec by auto
qed

theorem classifieur_en_echec_witness:
  "u_score_ml modele_absent dossier_sain 100 1 = 0.5 \<and>
   (\<exists>res. analyser modele_absent dossier_sain = Inr res \<and> proba_defaut res = 0.5 \<and>
        score_ml res = 50 \<and> decision res = decider (refus_auto res) (score_final res))"
proof -
  have 1: "duree_de dossier_sain \<noteq> 0" by (simp add: dossier_sain_def dget_def)
  have 2: "modele_absent row = None" for row by (simp add: modele_absent_def)
  from classifieur_en_echec [of modele_absent dossier_sain] 1 2 show ?thesis by blast
qed

text \<open>
  Claim C5: on every application \<^verbatim>\<open>analyser\<close> returns for (every one with a nonzero term
  at least), the \<open>score_metier\<close> of the result lies in \<open>[0, 100]\<close>: it is the total of the
  rules, started at \<open>100\<close>, clamped by \<open>max 0 (min 100 _)\<close>, and the clamped value is the
  one blended into \<open>score_final\<close>.
\<close>

theorem score_metier_borne:
  "(duree_de d \<noteq> 0 \<longrightarrow> (\<exists>res. analyser model d = Inr res)) \<and>
   (\<forall>res. analyser model d = Inr res \<longrightarrow>
      0 \<le> score_metier res \<and> score_metier res \<le> 100 \<and>
      score_metier res =
        max 0 (min 100 (fst (score_regles (det_taux_endettement (details res))
                (det_reste_a_vivre (details res)) (dget (d_nb_enfants d) 0) (age_de d)
                (det_age_fin_pret (details res)) (dget (d_anciennete_emploi d) 0)
                (det_type_credit (details res)) (montant_de d) (dget (d_apport d) 0)))) \<and>
      score_final res = 0.6 * of_int (score_metier res) + 0.4 * score_ml res)"
proof (intro conjI allI impI)
  assume "duree_de d \<noteq> 0"
  then show "\<exists>res. analyser model d = Inr res" by (rule analyser_retourne)
next
  fix res assume a: "analyser model d = Inr res"
  from analyser_Inr [OF a] have
    sf: "score_final res = 0.6 * of_int (score_metier res) + 0.4 * score_ml res"
    and t: "(score_metier res, alertes res, points_forts res) =
        (case score_regles (det_taux_endettement (details res)) (det_reste_a_vivre (details res))
                (dget (d_nb_enfants d) 0) (age_de d) (det_age_fin_pret (details res))
                (dget (d_anciennete_emploi d) 0) (det_type_credit (details res)) (montant_de d)
                (dget (d_apport d) 0)
         of (s, al, pf) \<Rightarrow> (max 0 (min 100 s), al, pf))"
    by blast+
  show "score_final res = 0.6 * of_int (score_metier res) + 0.4 * score_ml res" by (rule sf)
  from t show eq: "score_metier res =
        max 0 (min 100 (fst (score_regles (det_taux_endettement (details res))
                (det_reste_a_vivre (details res)) (dget (d_nb_enfants d) 0) (age_de d)
                (det_age_fin_pret (details res)) (dget (d_anciennete_emploi d) 0)
                (det_type_credit (details res)) (montant_de d) (dget (d_apport d) 0))))"
    by (simp split: prod.splits)
  show "0 \<le> score_metier res" unfolding eq by simp
  show "score_metier res \<le> 100" unfolding eq by simp
qed

theorem score_metier_borne_witness:
  "\<exists>res. analyser modele_absent dossier_mineur = Inr res \<and>
      0 \<le> score_metier res \<and> score_metier res \<le> 100"
proof -
  have "duree_de dossier_mineur \<noteq> 0" by (simp add: dossier_mineur_def dget_def)
  with score_metier_borne [of dossier_mineur modele_absent] show ?thesis by blast
qed






text \<open>
  Claim C10: for an application with an income \<open>> 0\<close> and existing charges \<open>> 0\<close>, the row
  the classifier is called on has \<open>DEBT_RATIO = mensualite / (revenu / 12)\<close> and
  \<open>RESTE_A_VIVRE = revenu / 12 - mensualite\<close>, without the charges, while the debt ratio
  and the disposable income of the result are \<open>(mensualite + charges) / (revenu / 12)\<close>
  and \<open>revenu / 12 - (mensualite + charges)\<close>; the two ratios differ and the two
  disposable incomes differ (in exact arithmetic).
\<close>

theorem features_sans_charges:
  "(duree_de d \<noteq> 0 \<longrightarrow> (\<exists>res. analyser model d = Inr res)) \<and>
   (\<forall>res rv c. analyser model d = Inr res \<and> d_revenu_annuel d = Some rv \<and> 0 < rv \<and>
        d_charges_existantes d = Some c \<and> 0 < c \<longrightarrow>
      (\<exists>mens row x y.
          mens = det_mensualite (details res) \<and>
          mensualite (montant_de d) (taux_interet (montant_de d)) (duree_de d) = Inr mens \<and>
          row = ligne_features d mens (duree_de d) \<and>
          proba_defaut res = (case model row of Some p \<Rightarrow> p | None \<Rightarrow> 0.5) \<and>
          DEBT_RATIO row = Some x \<and> x = mens / (rv / 12) \<and>
          RESTE_A_VIVRE row = rv / 12 - mens \<and>
          det_taux_endettement (details res) = Fini y \<and> y = (mens + c) / (rv / 12) \<and>
          det_reste_a_vivre (details res) = rv / 12 - (mens + c) \<and>
          x \<noteq> y \<and> RESTE_A_VIVRE row \<noteq> det_reste_a_vivre (details res)))"
proof (intro conjI allI impI)
  assume "duree_de d \<noteq> 0"
  then show "\<exists>res. analyser model d = Inr res" by (rule analyser_retourne)
next
  fix res rv c
  assume h: "analyser model d = Inr res \<and> d_revenu_annuel d = Some rv \<and> 0 < rv \<and>
        d_charges_existantes d = Some c \<and> 0 < c"
  then have a: "analyser model d = Inr res" by simp
  from analyser_Inr [OF a] obtain mens where
    m: "mensualite (montant_de d) (taux_interet (montant_de d)) (duree_de d) = Inr mens"
    and dm: "det_mensualite (details res) = mens"
    and te: "det_taux_endettement (details res)
           = taux_endettement (mens + charges_de d) (revenu_mensuel_de d)"
    and rav: "det_reste_a_vivre (details res) = revenu_mensuel_de d - (mens + charges_de d)"
    and p: "proba_defaut res = u_score_ml model d mens (duree_de d)"
    by blast
  have rm: "revenu_mensuel_de d = rv / 12" "charges_de d = c" "dget (d_revenu_annuel d) 1 = rv"
    using h by (simp_all add: dget_def)
  have 1: "DEBT_RATIO (ligne_features d mens (duree_de d)) = Some (mens / (rv / 12))"
    using h rm by (simp add: ligne_features_def Let_def)
  have 2: "RESTE_A_VIVRE (ligne_features d mens (duree_de d)) = rv / 12 - mens"
    using h rm by (simp add: ligne_features_def Let_def)
  have 3: "det_taux_endettement (details res) = Fini ((mens + c) / (rv / 12))"
    using h te rm by (simp add: taux_endettement_def)
  have 4: "det_reste_a_vivre (details res) = rv / 12 - (mens + c)"
    using rav rm by simp
  have 5: "mens / (rv / 12) \<noteq> (mens + c) / (rv / 12)" using h by simp
  have 6: "rv / 12 - mens \<noteq> rv / 12 - (mens + c)" using h by simp
  have 7: "proba_defaut res =
      (case model (ligne_features d mens (duree_de d)) of Some p \<Rightarrow> p | None \<Rightarrow> 0.5)"
    using p by (simp add: u_score_ml_def)
  show "\<exists>mens row x y.
          mens = det_mensualite (details res) \<and>
          mensualite (montant_de d) (taux_interet (montant_de d)) (duree_de d) = Inr mens \<and>
          row = ligne_features d mens (duree_de d) \<and>
          proba_defaut res = (case model row of Some p \<Rightarrow> p | None \<Rightarrow> 0.5) \<and>
          DEBT_RATIO row = Some x \<and> x = mens / (rv / 12) \<and>
          RESTE_A_VIVRE row = rv / 12 - mens \<and>
          det_taux_endettement (details res) = Fini y \<and> y = (mens + c) / (rv / 12) \<and>
          det_reste_a_vivre (details res) = rv / 12 - (mens + c) \<and>
          x \<noteq> y \<and> RESTE_A_VIVRE row \<noteq> det_reste_a_vivre (details res)"
    using m dm 1 2 3 4 5 6 7 by simp
qed

theorem features_sans_charges_witness:
  "\<exists>res. analyser modele_absent dossier_sain = Inr res \<and>
     DEBT_RATIO (ligne_features dossier_sain (det_mensualite (details res)) 1)
        = Some (det_mensualite (details res) / 5000) \<and>
     det_taux_endettement (details res) = Fini ((det_mensualite (details res) + 100) / 5000) \<and>
     RESTE_A_VIVRE (ligne_features dossier_sain (det_mensualite (details res)) 1)
        \<noteq> det_reste_a_vivre (details res)"
proof -
  have v: "duree_de dossier_sain = 1" "d_revenu_annuel dossier_sain = Some 60000"
    "d_charges_existantes dossier_sain = Some 100"
    by (simp_all add: dossier_sain_def dget_def)
  then have "duree_de dossier_sain \<noteq> 0" by simp
  then obtain res where a: "analyser modele_absent dossier_sain = Inr res"
    using analyser_retourne by blast
  from features_sans_charges [of dossier_sain modele_absent] a v
  have "\<exists>mens row x y.
          mens = det_mensualite (details res) \<and>
          row = ligne_features dossier_sain mens 1 \<and>
          DEBT_RATIO row = Some x \<and> x = mens / (60000 / 12) \<and>
          det_taux_endettement (details res) = Fini y \<and> y = (mens + 100) / (60000 / 12) \<and>
          RESTE_A_VIVRE row \<noteq> det_reste_a_vivre (details res)"
    by auto
  with a show ?thesis by auto
qed

end
